theory Spec2Isabelle
  imports Main "HOL-Library.Word"
begin

unbundle bit_operations_syntax

section \<open>Data model\<close>

type_synonym u8 = "8 word"
type_synonym u16 = "16 word"
type_synonym i16 = "16 word"  \<comment> \<open>\<open>int16_t\<close>: two's complement, read with \<open>sint\<close>\<close>

text \<open>
  Constants of the headers. \<open>BLE_HS_CONN_HANDLE_NONE\<close> comes from the NimBLE host
  (\<open>host/ble_hs.h\<close>, value \<open>0xffff\<close>), \<open>BLE_HS_EDONE\<close> from \<open>host/ble_hs.h\<close> as well;
  the others are defined in \<open>ble_power_service.h\<close> and \<open>main.c\<close>.
\<close>

definition BLE_HS_CONN_HANDLE_NONE :: u16 where
  "BLE_HS_CONN_HANDLE_NONE = 0xFFFF"

definition BLE_HS_EDONE :: int where
  "BLE_HS_EDONE = 14"

definition CPM_FLAG_CRANK_REV_DATA_PRESENT :: u16 where
  "CPM_FLAG_CRANK_REV_DATA_PRESENT = 0x0020"



text \<open>
  \<open>cycling_power_measurement_t\<close> (\<open>ble_power_service.h\<close>): four 16-bit fields, declared
  \<open>packed\<close>. The field names carry the prefix \<open>cpm_\<close> because two of them are also the
  names of the static counters of \<open>ble_power_service.c\<close>.
\<close>

record cycling_power_measurement_t =
  cpm_flags :: u16
  cpm_instantaneous_power :: i16
  cpm_cumulative_crank_revs :: u16
  cpm_last_crank_event_time :: u16

text \<open>
  The object representation that \<open>ble_hs_mbuf_from_flat (&measurement, sizeof measurement)\<close>
  copies: the struct is packed, so the four fields follow each other without padding, and
  the target (ESP32) stores a 16-bit integer low byte first.
\<close>

definition le16 :: "u16 \<Rightarrow> u8 list" where
  "le16 w = [ucast w, ucast (drop_bit 8 w)]"

definition flat_bytes :: "cycling_power_measurement_t \<Rightarrow> u8 list" where
  "flat_bytes m =
     le16 (cpm_flags m) @ le16 (cpm_instantaneous_power m) @
     le16 (cpm_cumulative_crank_revs m) @ le16 (cpm_last_crank_event_time m)"



subsection \<open>Effects\<close>

text \<open>
  Everything the program does that something else can observe is recorded, oldest first:
  the log lines (\<open>ESP_LOGx\<close>, by level and message, arguments left out), the calls into
  the NimBLE host, each with the value the host returned, and the stores to the two static
  variables that the other task reads, \<open>power_conn_handle\<close> and \<open>power_notify_enabled\<close>,
  each with the value stored. The order of the record is the order of the statements.
\<close>

datatype log_level = LogE | LogI | LogD

datatype action =
    Log log_level string
  | Adv_set_fields int
  | Adv_start int
  | Conn_find u16 int
  | Mbuf_from_flat "u8 list" bool
  | Notify_custom u16 u16 "u8 list" int
  | Store_conn_handle u16
  | Store_notify_enabled bool

text \<open>
  What the host answers to the calls made while one handler or one tick runs. Each of
  these functions is called at most once per handler or tick.
\<close>

record transport =
  conn_find_rc :: int
  adv_set_fields_rc :: int
  adv_start_rc :: int
  mbuf_alloc_ok :: bool
  notify_rc :: int

text \<open>
  The static variables of \<open>ble_power_service.c\<close>, the advertising activity of the host
  (\<open>adv_active\<close>: the program does not store it, \<open>ble_gap_adv_start\<close> starts it in the
  host) and the record of the effects.
\<close>

record system =
  power_measurement_val_handle :: u16
  power_conn_handle :: u16
  power_notify_enabled :: bool
  cumulative_crank_revs :: u16
  last_crank_event_time :: u16
  adv_active :: bool
  trace :: "action list"

definition emit :: "action list \<Rightarrow> system \<Rightarrow> system" where
  "emit as s = s\<lparr>trace := trace s @ as\<rparr>"

text \<open>The state at process start: the initialisers of the static variables.\<close>

definition boot :: "u16 \<Rightarrow> system" where
  "boot val_handle =
     \<lparr>power_measurement_val_handle = val_handle,
      power_conn_handle = BLE_HS_CONN_HANDLE_NONE,
      power_notify_enabled = False,
      cumulative_crank_revs = 0,
      last_crank_event_time = 0,
      adv_active = False,
      trace = []\<rparr>"

text \<open>The events of \<open>struct ble_gap_event\<close> that \<open>gap_event_handler\<close> looks at.\<close>

record gap_subscribe =
  sub_conn_handle :: u16
  sub_attr_handle :: u16
  sub_reason :: u8
  prev_notify :: bool
  cur_notify :: bool
  prev_indicate :: bool
  cur_indicate :: bool

datatype ble_gap_event =
    BLE_GAP_EVENT_CONNECT int u16
  | BLE_GAP_EVENT_DISCONNECT int u16
  | BLE_GAP_EVENT_CONN_UPDATE int u16
  | BLE_GAP_EVENT_ADV_COMPLETE int
  | BLE_GAP_EVENT_NOTIFY_TX int u16 u16 bool
  | BLE_GAP_EVENT_SUBSCRIBE gap_subscribe
  | BLE_GAP_EVENT_MTU u16 u16 u16
  | BLE_GAP_EVENT_OTHER nat

section \<open>ble_power_service.c\<close>

definition power_service_set_conn_handle :: "u16 \<Rightarrow> system \<Rightarrow> system" where
  "power_service_set_conn_handle conn_handle s =
     (let s1 = emit [Store_conn_handle conn_handle] (s\<lparr>power_conn_handle := conn_handle\<rparr>)
      in if conn_handle = BLE_HS_CONN_HANDLE_NONE
         then emit [Store_notify_enabled False] (s1\<lparr>power_notify_enabled := False\<rparr>)
         else s1)"

definition power_service_subscribe_cb :: "gap_subscribe \<Rightarrow> system \<Rightarrow> system" where
  "power_service_subscribe_cb ev s =
     (if sub_attr_handle ev = power_measurement_val_handle s
      then emit [Store_notify_enabled (cur_notify ev),
                 Log LogI ''power measurement notifications %s'']
             (s\<lparr>power_notify_enabled := cur_notify ev\<rparr>)
      else s)"

text \<open>
  The predicate the specification calls \<open>may_notify\<close>: the negation of the guard that opens
  \<open>send_power_notification\<close>.
\<close>

definition may_notify :: "system \<Rightarrow> bool" where
  "may_notify s = (\<not> (\<not> power_notify_enabled s \<or> power_conn_handle s = BLE_HS_CONN_HANDLE_NONE))"

definition send_power_notification :: "transport \<Rightarrow> i16 \<Rightarrow> system \<Rightarrow> system" where
  "send_power_notification env power_watts s =
     (if \<not> power_notify_enabled s \<or> power_conn_handle s = BLE_HS_CONN_HANDLE_NONE then s
      else
        let s1 = s\<lparr>cumulative_crank_revs := cumulative_crank_revs s + 1\<rparr>;
            s2 = s1\<lparr>last_crank_event_time := last_crank_event_time s1 + 256\<rparr>;
            measurement =
              \<lparr>cpm_flags = CPM_FLAG_CRANK_REV_DATA_PRESENT,
               cpm_instantaneous_power = power_watts,
               cpm_cumulative_crank_revs = cumulative_crank_revs s2,
               cpm_last_crank_event_time = last_crank_event_time s2\<rparr>;
            om = flat_bytes measurement;
            s3 = emit [Mbuf_from_flat om (mbuf_alloc_ok env)] s2
        in if \<not> mbuf_alloc_ok env
           then emit [Log LogE ''failed to allocate mbuf for notification''] s3
           else
             let rc = notify_rc env;
                 s4 = emit [Notify_custom (power_conn_handle s3)
                              (power_measurement_val_handle s3) om rc] s3
             in if rc \<noteq> 0
                then emit [Log LogE ''failed to send notification, error code: %d''] s4
                else emit [Log LogD ''sent power: %d W, revs: %d, time: %d''] s4)"

section \<open>gap.c\<close>

definition print_conn_desc :: "system \<Rightarrow> system" where
  "print_conn_desc s =
     emit [Log LogI ''connection handle: %d'',
           Log LogI ''device id address: type=%d, value=%s'',
           Log LogI ''peer id address: type=%d, value=%s'',
           Log LogI ''conn_itvl=%d, conn_latency=%d, supervision_timeout=%d, encrypted=%d, authenticated=%d, bonded=%d\<newline>''] s"

text \<open>
  \<open>ble_gap_adv_start\<close> of the host: with return value 0 the host is advertising from then
  on, with any other value nothing changes.
\<close>

definition ble_gap_adv_start :: "int \<Rightarrow> system \<Rightarrow> system" where
  "ble_gap_adv_start rc s =
     emit [Adv_start rc] (if rc = 0 then s\<lparr>adv_active := True\<rparr> else s)"

definition start_advertising :: "transport \<Rightarrow> system \<Rightarrow> system" where
  "start_advertising env s =
     (let rc = adv_set_fields_rc env;
          s1 = emit [Adv_set_fields rc] s
      in if rc \<noteq> 0
         then emit [Log LogE ''failed to set advertising data, error code: %d''] s1
         else
           let rc = adv_start_rc env;
               s2 = ble_gap_adv_start rc s1
           in if rc \<noteq> 0
              then emit [Log LogE ''failed to start advertising, error code: %d''] s2
              else emit [Log LogI ''advertising started!''] s2)"

fun gap_event_handler :: "transport \<Rightarrow> ble_gap_event \<Rightarrow> system \<Rightarrow> int \<times> system" where
  "gap_event_handler env (BLE_GAP_EVENT_CONNECT status conn_handle) s =
     (let s0 = emit [Log LogI ''connection %s; status=%d''] s
      in if status = 0
         then
           let rc = conn_find_rc env;
               s1 = emit [Conn_find conn_handle rc] s0
           in if rc \<noteq> 0
              then (rc, emit [Log LogE ''failed to find connection, error code: %d''] s1)
              else (rc, power_service_set_conn_handle conn_handle (print_conn_desc s1))
         else (0, start_advertising env s0))"
| "gap_event_handler env (BLE_GAP_EVENT_DISCONNECT reason conn_handle) s =
     (let s0 = emit [Log LogI ''disconnected from peer; reason=%d''] s;
          s1 = power_service_set_conn_handle BLE_HS_CONN_HANDLE_NONE s0
      in (0, start_advertising env s1))"
| "gap_event_handler env (BLE_GAP_EVENT_CONN_UPDATE status conn_handle) s =
     (let s0 = emit [Log LogI ''connection updated; status=%d''] s;
          rc = conn_find_rc env;
          s1 = emit [Conn_find conn_handle rc] s0
      in if rc = 0 then (rc, print_conn_desc s1) else (rc, s1))"
| "gap_event_handler env (BLE_GAP_EVENT_ADV_COMPLETE reason) s =
     (let s0 = emit [Log LogI ''advertise complete; reason=%d''] s
      in (0, start_advertising env s0))"
| "gap_event_handler env (BLE_GAP_EVENT_NOTIFY_TX status conn_handle attr_handle indication) s =
     (if status \<noteq> 0 \<and> status \<noteq> BLE_HS_EDONE
      then (0, emit [Log LogI ''notify event; conn_handle=%d attr_handle=%d status=%d is_indication=%d''] s)
      else (0, s))"
| "gap_event_handler env (BLE_GAP_EVENT_SUBSCRIBE ev) s =
     (let s0 = emit [Log LogI ''subscribe event; conn_handle=%d attr_handle=%d reason=%d prevn=%d curn=%d previ=%d curi=%d''] s
      in (0, power_service_subscribe_cb ev s0))"
| "gap_event_handler env (BLE_GAP_EVENT_MTU conn_handle channel_id mtu) s =
     (0, emit [Log LogI ''mtu update event; conn_handle=%d cid=%d mtu=%d''] s)"
| "gap_event_handler env (BLE_GAP_EVENT_OTHER n) s = (0, s)"

section \<open>The peripheral as a state machine\<close>

text \<open>
  The program keeps no variable for the state of the peripheral. It is read off the
  connection handle and the advertising activity of the host.
\<close>

datatype peripheral_state = Idle | Advertising | Connected

definition peripheral_state_of :: "system \<Rightarrow> peripheral_state" where
  "peripheral_state_of s =
     (if power_conn_handle s \<noteq> BLE_HS_CONN_HANDLE_NONE then Connected
      else if adv_active s then Advertising
      else Idle)"

text \<open>
  The host's side of an event. An advertising procedure has ended when the host reports a
  connection attempt (established or failed) or the completion of the procedure, so the
  host is no longer advertising when the handler runs for these events; the others leave
  the advertising activity as it is.
\<close>

fun host_event :: "ble_gap_event \<Rightarrow> system \<Rightarrow> system" where
  "host_event (BLE_GAP_EVENT_CONNECT status conn_handle) s = s\<lparr>adv_active := False\<rparr>"
| "host_event (BLE_GAP_EVENT_ADV_COMPLETE reason) s = s\<lparr>adv_active := False\<rparr>"
| "host_event _ s = s"

definition deliver :: "transport \<Rightarrow> ble_gap_event \<Rightarrow> system \<Rightarrow> int \<times> system" where
  "deliver env ev s = gap_event_handler env ev (host_event ev s)"

text \<open>
  A run of the two tasks, serialised: the host task delivers events, the power update task
  of \<open>main.c\<close> calls \<open>send_power_notification\<close> once per period with the power value it
  computed. \<open>accepted\<close> counts the ticks of a run that pass the guard.
\<close>

datatype step = Event transport ble_gap_event | Tick transport i16

fun do_step :: "step \<Rightarrow> system \<Rightarrow> system" where
  "do_step (Event env ev) s = snd (deliver env ev s)"
| "do_step (Tick env power_watts) s = send_power_notification env power_watts s"

fun run :: "step list \<Rightarrow> system \<Rightarrow> system" where
  "run [] s = s"
| "run (x # xs) s = run xs (do_step x s)"


text \<open>The calls of a record that belong to the advertising request.\<close>

fun is_adv_call :: "action \<Rightarrow> bool" where
  "is_adv_call (Adv_set_fields rc) = True"
| "is_adv_call (Adv_start rc) = True"
| "is_adv_call _ = False"

definition adv_calls :: "system \<Rightarrow> action list" where
  "adv_calls s = filter is_adv_call (trace s)"

text \<open>
  The steps in which the program stores to \<open>power_notify_enabled\<close>, for a given value
  handle of the power measurement characteristic: a subscribe event for that handle (the
  store in \<open>power_service_subscribe_cb\<close>), a disconnect event, and a connect event with
  status 0 whose connection is found and whose handle is the none sentinel (the store in
  \<open>power_service_set_conn_handle\<close>).
\<close>

fun writes_flag :: "u16 \<Rightarrow> step \<Rightarrow> bool" where
  "writes_flag vh (Event env (BLE_GAP_EVENT_SUBSCRIBE ev)) = (sub_attr_handle ev = vh)"
| "writes_flag vh (Event env (BLE_GAP_EVENT_DISCONNECT reason conn_handle)) = True"
| "writes_flag vh (Event env (BLE_GAP_EVENT_CONNECT status conn_handle)) =
     (status = 0 \<and> conn_find_rc env = 0 \<and> conn_handle = BLE_HS_CONN_HANDLE_NONE)"
| "writes_flag vh _ = False"

section \<open>Concrete hosts and states\<close>

text \<open>Hosts and states at which the theorems below are evaluated.\<close>

definition host_accepts :: transport where
  "host_accepts =
     \<lparr>conn_find_rc = 0, adv_set_fields_rc = 0, adv_start_rc = 0,
      mbuf_alloc_ok = True, notify_rc = 0\<rparr>"

definition host_no_mbuf :: transport where
  "host_no_mbuf = host_accepts\<lparr>mbuf_alloc_ok := False\<rparr>"

definition host_rejects_notify :: transport where
  "host_rejects_notify = host_accepts\<lparr>notify_rc := 7\<rparr>"

definition host_rejects_fields :: transport where
  "host_rejects_fields = host_accepts\<lparr>adv_set_fields_rc := 4\<rparr>"

definition host_rejects_start :: transport where
  "host_rejects_start = host_accepts\<lparr>adv_start_rc := 6\<rparr>"

definition host_conn_find_fails :: transport where
  "host_conn_find_fails = host_accepts\<lparr>conn_find_rc := 7\<rparr>"

definition subscribed_to :: "u16 \<Rightarrow> system" where
  "subscribed_to h = (boot 42)\<lparr>power_conn_handle := h, power_notify_enabled := True\<rparr>"

definition near_wrap :: system where
  "near_wrap =
     (subscribed_to 7)\<lparr>cumulative_crank_revs := 65535, last_crank_event_time := 65280\<rparr>"

definition advertising :: system where
  "advertising = (boot 42)\<lparr>adv_active := True\<rparr>"

definition sub_ev :: "u16 \<Rightarrow> u16 \<Rightarrow> bool \<Rightarrow> gap_subscribe" where
  "sub_ev c a on =
     \<lparr>sub_conn_handle = c, sub_attr_handle = a, sub_reason = 1,
      prev_notify = \<not> on, cur_notify = on, prev_indicate = False, cur_indicate = False\<rparr>"

text \<open>The first log line of the subscribe and of the disconnect branch of the handler.\<close>

definition subscribe_line :: action where
  "subscribe_line =
     Log LogI ''subscribe event; conn_handle=%d attr_handle=%d reason=%d prevn=%d curn=%d previ=%d curi=%d''"

definition disconnect_line :: action where
  "disconnect_line = Log LogI ''disconnected from peer; reason=%d''"

section \<open>Basic facts\<close>

lemmas sys_defs = emit_def power_service_set_conn_handle_def power_service_subscribe_cb_def
  print_conn_desc_def ble_gap_adv_start_def start_advertising_def deliver_def Let_def

lemmas host_defs = host_accepts_def host_no_mbuf_def host_rejects_notify_def
  host_rejects_fields_def host_rejects_start_def host_conn_find_fails_def





text \<open>A tick that passes the guard, written out: the new state and the effects.\<close>

lemma send_permitted:
  assumes "may_notify s"
  shows "send_power_notification env p s =
     s\<lparr>cumulative_crank_revs := cumulative_crank_revs s + 1,
       last_crank_event_time := last_crank_event_time s + 256,
       trace := trace s @
         (let om = flat_bytes \<lparr>cpm_flags = CPM_FLAG_CRANK_REV_DATA_PRESENT,
                     cpm_instantaneous_power = p,
                     cpm_cumulative_crank_revs = cumulative_crank_revs s + 1,
                     cpm_last_crank_event_time = last_crank_event_time s + 256\<rparr>
          in if \<not> mbuf_alloc_ok env
             then [Mbuf_from_flat om False,
                   Log LogE ''failed to allocate mbuf for notification'']
             else [Mbuf_from_flat om True,
                   Notify_custom (power_conn_handle s) (power_measurement_val_handle s) om
                     (notify_rc env),
                   if notify_rc env \<noteq> 0
                   then Log LogE ''failed to send notification, error code: %d''
                   else Log LogD ''sent power: %d W, revs: %d, time: %d''])\<rparr>"
  using assms by (simp add: may_notify_def send_power_notification_def Let_def emit_def)

lemma send_keeps_gate: "may_notify (send_power_notification env p s) = may_notify s"
  by (simp add: may_notify_def send_power_notification_def Let_def emit_def)


lemma near_wrap_gate: "may_notify near_wrap"
  by (simp add: near_wrap_def subscribed_to_def boot_def may_notify_def
      BLE_HS_CONN_HANDLE_NONE_def)

section \<open>The periodic notifier\<close>

text \<open>
  C2. A tick on which the recorded connection handle is the none sentinel or the
  notification flag is false returns the state it was given: the two crank counters keep
  their values, and the record of effects is the same, so no packet was built and nothing
  was handed to the host.
\<close>

theorem tick_without_listener_is_noop:
  assumes "power_conn_handle s = BLE_HS_CONN_HANDLE_NONE \<or> \<not> power_notify_enabled s"
  shows "send_power_notification env power_watts s = s"
  using assms by (auto simp add: send_power_notification_def)

theorem tick_without_listener_is_noop_witness:
  "(power_conn_handle (boot 42) = BLE_HS_CONN_HANDLE_NONE \<or> \<not> power_notify_enabled (boot 42))
   \<and> send_power_notification host_accepts 215 (boot 42) = boot 42"
  using tick_without_listener_is_noop [of "boot 42" host_accepts 215]
  by (simp add: boot_def)

subsection \<open>Counters\<close>







subsection \<open>The payload\<close>



section \<open>Subscription\<close>

text \<open>
  C8. The handler returns 0 for every subscribe event. If the attribute handle of the event
  is the value handle of the power measurement characteristic, the notification flag
  becomes the event's \<open>cur_notify\<close> (one store, between two info lines of the log) and no
  other variable changes. For any other attribute handle there is no store and nothing
  changes but the log (one info line, no error). Delivering the same event a second time
  leaves every variable as the first delivery left it; only the record of effects grows.
\<close>

theorem subscribe_event_effect:
  "let r = gap_event_handler env (BLE_GAP_EVENT_SUBSCRIBE ev) s;
       r2 = gap_event_handler env2 (BLE_GAP_EVENT_SUBSCRIBE ev) (snd r)
   in fst r = 0
      \<and> (sub_attr_handle ev = power_measurement_val_handle s \<longrightarrow>
            snd r = s\<lparr>power_notify_enabled := cur_notify ev,
                       trace := trace s @ [subscribe_line,
                                  Store_notify_enabled (cur_notify ev),
                                  Log LogI ''power measurement notifications %s'']\<rparr>)
      \<and> (sub_attr_handle ev \<noteq> power_measurement_val_handle s \<longrightarrow>
            snd r = s\<lparr>trace := trace s @ [subscribe_line]\<rparr>)
      \<and> fst r2 = 0
      \<and> snd r2 = (snd r)\<lparr>trace := trace (snd r2)\<rparr>"
  by (simp add: sys_defs subscribe_line_def)

theorem subscribe_event_effect_witness:
  "sub_attr_handle (sub_ev 7 42 True) =
     power_measurement_val_handle ((boot 42)\<lparr>power_conn_handle := 7\<rparr>)
   \<and> sub_attr_handle (sub_ev 7 43 True) \<noteq>
     power_measurement_val_handle ((boot 42)\<lparr>power_conn_handle := 7\<rparr>)
   \<and> power_notify_enabled
       (snd (gap_event_handler host_accepts (BLE_GAP_EVENT_SUBSCRIBE (sub_ev 7 42 True))
          ((boot 42)\<lparr>power_conn_handle := 7\<rparr>)))
   \<and> snd (gap_event_handler host_accepts (BLE_GAP_EVENT_SUBSCRIBE (sub_ev 7 43 True))
          ((boot 42)\<lparr>power_conn_handle := 7\<rparr>)) =
       (boot 42)\<lparr>power_conn_handle := 7, trace := [subscribe_line]\<rparr>"
  using
    subscribe_event_effect [of host_accepts "sub_ev 7 42 True"
      "(boot 42)\<lparr>power_conn_handle := 7\<rparr>" host_accepts]
    subscribe_event_effect [of host_accepts "sub_ev 7 43 True"
      "(boot 42)\<lparr>power_conn_handle := 7\<rparr>" host_accepts]
  by (simp add: Let_def sub_ev_def boot_def)

lemma step_keeps_val_handle:
  "power_measurement_val_handle (do_step x s) = power_measurement_val_handle s"
proof (cases x)
  case (Event env ev)
  then show ?thesis
    by (cases ev) (simp_all add: sys_defs)
next
  case (Tick env p)
  then show ?thesis
    by (simp add: send_power_notification_def emit_def Let_def)
qed

lemma flag_kept_by_other_steps:
  "\<not> writes_flag (power_measurement_val_handle s) x \<Longrightarrow>
   power_notify_enabled (do_step x s) = power_notify_enabled s"
proof (cases x)
  case (Event env ev)
  assume "\<not> writes_flag (power_measurement_val_handle s) x"
  with Event show ?thesis
    by (cases ev) (auto simp add: sys_defs)
next
  case (Tick env p)
  then show ?thesis
    by (simp add: send_power_notification_def emit_def Let_def)
qed

lemma flag_kept_by_run:
  "\<forall>x\<in>set xs. \<not> writes_flag (power_measurement_val_handle s) x \<Longrightarrow>
   power_notify_enabled (run xs s) = power_notify_enabled s"
proof (induction xs arbitrary: s)
  case Nil
  show ?case by simp
next
  case (Cons x xs)
  have "power_notify_enabled (run xs (do_step x s)) = power_notify_enabled (do_step x s)"
    using Cons.prems by (intro Cons.IH) (simp add: step_keeps_val_handle)
  then show ?case
    using Cons.prems by (simp add: flag_kept_by_other_steps)
qed

lemma flag_changes_only_by_subscribe_or_clear:
  "power_notify_enabled (do_step x s) \<noteq> power_notify_enabled s \<longrightarrow>
     (\<exists>env' ev'. x = Event env' (BLE_GAP_EVENT_SUBSCRIBE ev')
         \<and> sub_attr_handle ev' = power_measurement_val_handle s)
     \<or> (\<exists>env' reason conn_handle.
           x = Event env' (BLE_GAP_EVENT_DISCONNECT reason conn_handle))
     \<or> (\<exists>env'. x = Event env' (BLE_GAP_EVENT_CONNECT 0 BLE_HS_CONN_HANDLE_NONE)
           \<and> conn_find_rc env' = 0)"
proof (cases "writes_flag (power_measurement_val_handle s) x")
  case False
  then show ?thesis
    by (simp add: flag_kept_by_other_steps)
next
  case True
  then show ?thesis
    by (cases "(power_measurement_val_handle s, x)" rule: writes_flag.cases) auto
qed

lemma subscribe_cb_flag:
  "power_notify_enabled (power_service_subscribe_cb ev s) =
     (if sub_attr_handle ev = power_measurement_val_handle s then cur_notify ev
      else power_notify_enabled s)"
  by (simp add: sys_defs)

lemma subscribe_cb_ignores_handles:
  "power_service_subscribe_cb (ev\<lparr>sub_conn_handle := c\<rparr>) (s\<lparr>power_conn_handle := h\<rparr>) =
     (power_service_subscribe_cb ev s)\<lparr>power_conn_handle := h\<rparr>"
  by (simp add: sys_defs)

lemma subscribe_while_disconnected:
  "power_conn_handle s = BLE_HS_CONN_HANDLE_NONE
     \<and> sub_attr_handle ev = power_measurement_val_handle s \<longrightarrow>
   (let s' = snd (gap_event_handler env (BLE_GAP_EVENT_SUBSCRIBE ev) s)
    in power_notify_enabled s' = cur_notify ev
       \<and> power_conn_handle s' = BLE_HS_CONN_HANDLE_NONE
       \<and> \<not> may_notify s'
       \<and> send_power_notification env2 power_watts s' = s')"
  by (simp add: sys_defs may_notify_def send_power_notification_def)

lemma flag_survives_connect:
  "power_notify_enabled s \<and> conn_find_rc env = 0 \<and> h \<noteq> BLE_HS_CONN_HANDLE_NONE \<longrightarrow>
     may_notify (snd (deliver env (BLE_GAP_EVENT_CONNECT 0 h) s))"
  by (simp add: sys_defs may_notify_def)

text \<open>
  C10. The subscribe callback decides on the attribute handle alone: the new flag is
  \<open>cur_notify\<close> of the event if the attribute handle is the power measurement value handle
  and the old flag otherwise, whatever the connection handle of the event and whatever
  connection handle is recorded. So a matching event sets the flag to \<open>cur_notify\<close> also
  while the recorded handle is the none sentinel; ticks are then still no-ops. A step of a
  run changes the flag only if it is a subscribe event for the value handle (the flag is
  overwritten), a disconnect event, or a successful connect event that records the none
  sentinel (the recorded handle is cleared to none); over a run without such a step the
  flag keeps its value. A flag that is set is therefore still set after a connection with
  a real handle is recorded, and ticks pass the guard from then on.
\<close>

theorem subscribe_ignores_connection:
  "power_notify_enabled (power_service_subscribe_cb ev s) =
     (if sub_attr_handle ev = power_measurement_val_handle s then cur_notify ev
      else power_notify_enabled s)
   \<and> power_service_subscribe_cb (ev\<lparr>sub_conn_handle := c\<rparr>) (s\<lparr>power_conn_handle := h\<rparr>) =
       (power_service_subscribe_cb ev s)\<lparr>power_conn_handle := h\<rparr>
   \<and> (power_conn_handle s = BLE_HS_CONN_HANDLE_NONE
        \<and> sub_attr_handle ev = power_measurement_val_handle s \<longrightarrow>
          (let s' = snd (gap_event_handler env (BLE_GAP_EVENT_SUBSCRIBE ev) s)
           in power_notify_enabled s' = cur_notify ev
              \<and> power_conn_handle s' = BLE_HS_CONN_HANDLE_NONE
              \<and> \<not> may_notify s'
              \<and> send_power_notification env2 power_watts s' = s'))
   \<and> (power_notify_enabled (do_step x s) \<noteq> power_notify_enabled s \<longrightarrow>
        (\<exists>env' ev'. x = Event env' (BLE_GAP_EVENT_SUBSCRIBE ev')
            \<and> sub_attr_handle ev' = power_measurement_val_handle s)
        \<or> (\<exists>env' reason conn_handle.
              x = Event env' (BLE_GAP_EVENT_DISCONNECT reason conn_handle))
        \<or> (\<exists>env'. x = Event env' (BLE_GAP_EVENT_CONNECT 0 BLE_HS_CONN_HANDLE_NONE)
              \<and> conn_find_rc env' = 0))
   \<and> ((\<forall>x\<in>set xs. \<not> writes_flag (power_measurement_val_handle s) x) \<longrightarrow>
        power_notify_enabled (run xs s) = power_notify_enabled s)
   \<and> (power_notify_enabled s \<and> conn_find_rc env = 0 \<and> h \<noteq> BLE_HS_CONN_HANDLE_NONE \<longrightarrow>
        may_notify (snd (deliver env (BLE_GAP_EVENT_CONNECT 0 h) s)))"
  using flag_changes_only_by_subscribe_or_clear [where x = x and s = s]
    flag_kept_by_run [where xs = xs and s = s]
    subscribe_cb_flag [where ev = ev and s = s]
    subscribe_cb_ignores_handles [where ev = ev and c = c and s = s and h = h]
    subscribe_while_disconnected
      [where s = s and ev = ev and env = env and ?env2.0 = env2 and power_watts = power_watts]
    flag_survives_connect [where s = s and env = env and h = h]
  by blast

theorem subscribe_ignores_connection_witness:
  "power_conn_handle (boot 42) = BLE_HS_CONN_HANDLE_NONE
   \<and> sub_attr_handle (sub_ev 3 42 True) = power_measurement_val_handle (boot 42)
   \<and> power_notify_enabled
       (snd (gap_event_handler host_accepts (BLE_GAP_EVENT_SUBSCRIBE (sub_ev 3 42 True)) (boot 42)))
   \<and> \<not> may_notify
       (snd (gap_event_handler host_accepts (BLE_GAP_EVENT_SUBSCRIBE (sub_ev 3 42 True)) (boot 42)))
   \<and> power_notify_enabled
       (run [Tick host_accepts 215, Event host_accepts (BLE_GAP_EVENT_MTU 7 4 185),
             Event host_accepts (BLE_GAP_EVENT_SUBSCRIBE (sub_ev 3 43 False)),
             Event host_accepts (BLE_GAP_EVENT_CONNECT 0 7)]
          (snd (gap_event_handler host_accepts (BLE_GAP_EVENT_SUBSCRIBE (sub_ev 3 42 True))
             (boot 42))))
   \<and> may_notify
       (snd (deliver host_accepts (BLE_GAP_EVENT_CONNECT 0 7)
          (snd (gap_event_handler host_accepts (BLE_GAP_EVENT_SUBSCRIBE (sub_ev 3 42 True))
             (boot 42)))))"
proof -
  let ?s1 = "snd (gap_event_handler host_accepts (BLE_GAP_EVENT_SUBSCRIBE (sub_ev 3 42 True))
    (boot 42))"
  let ?xs = "[Tick host_accepts 215, Event host_accepts (BLE_GAP_EVENT_MTU 7 4 185),
    Event host_accepts (BLE_GAP_EVENT_SUBSCRIBE (sub_ev 3 43 False)),
    Event host_accepts (BLE_GAP_EVENT_CONNECT 0 7)]"
  have a: "power_conn_handle (boot 42) = BLE_HS_CONN_HANDLE_NONE"
    "sub_attr_handle (sub_ev 3 42 True) = power_measurement_val_handle (boot 42)"
    "cur_notify (sub_ev 3 42 True)"
    by (simp_all add: boot_def sub_ev_def)
  from subscribe_ignores_connection
    [where ev = "sub_ev 3 42 True" and s = "boot 42" and env = host_accepts] a
  have f: "power_notify_enabled ?s1" "\<not> may_notify ?s1"
    by (simp_all add: Let_def)
  have b: "conn_find_rc host_accepts = 0" "(7 :: u16) \<noteq> BLE_HS_CONN_HANDLE_NONE"
    by (simp_all add: host_defs BLE_HS_CONN_HANDLE_NONE_def)
  have v: "power_measurement_val_handle ?s1 = 42"
    by (simp add: sys_defs boot_def)
  have w: "\<forall>x\<in>set ?xs. \<not> writes_flag (power_measurement_val_handle ?s1) x"
    unfolding v by (simp add: sub_ev_def BLE_HS_CONN_HANDLE_NONE_def)
  from subscribe_ignores_connection [where s = ?s1 and xs = ?xs] w f(1)
  have r: "power_notify_enabled (run ?xs ?s1)"
    by blast
  from subscribe_ignores_connection [where s = ?s1 and env = host_accepts and h = 7] f(1) b
  have g: "may_notify (snd (deliver host_accepts (BLE_GAP_EVENT_CONNECT 0 7) ?s1))"
    by blast
  show ?thesis
    using a f r g by simp
qed

section \<open>Advertising and connections\<close>

text \<open>The three ways \<open>start_advertising\<close> can go, written out.\<close>

lemma start_advertising_cases:
  "start_advertising env s =
     (if adv_set_fields_rc env \<noteq> 0
      then s\<lparr>trace := trace s @
             [Adv_set_fields (adv_set_fields_rc env),
              Log LogE ''failed to set advertising data, error code: %d'']\<rparr>
      else if adv_start_rc env \<noteq> 0
      then s\<lparr>trace := trace s @
             [Adv_set_fields 0, Adv_start (adv_start_rc env),
              Log LogE ''failed to start advertising, error code: %d'']\<rparr>
      else s\<lparr>adv_active := True,
             trace := trace s @
               [Adv_set_fields 0, Adv_start 0, Log LogI ''advertising started!'']\<rparr>)"
  by (simp add: start_advertising_def ble_gap_adv_start_def emit_def Let_def)

lemma tick_no_adv_calls: "adv_calls (send_power_notification env p s) = adv_calls s"
  by (simp add: adv_calls_def send_power_notification_def emit_def Let_def)

lemma adv_calls_start:
  "adv_calls (start_advertising env s) =
     adv_calls s @
       (if adv_set_fields_rc env \<noteq> 0 then [Adv_set_fields (adv_set_fields_rc env)]
        else [Adv_set_fields 0, Adv_start (adv_start_rc env)])"
  by (simp add: adv_calls_def start_advertising_cases)

lemma adv_calls_other:
  "adv_calls (emit [Log l m] s) = adv_calls s"
  "adv_calls (emit [Conn_find c rc] s) = adv_calls s"
  "adv_calls (print_conn_desc s) = adv_calls s"
  "adv_calls (power_service_set_conn_handle h s) = adv_calls s"
  "adv_calls (power_service_subscribe_cb sub s) = adv_calls s"
  "adv_calls (s\<lparr>adv_active := b\<rparr>) = adv_calls s"
  by (simp_all add: adv_calls_def emit_def print_conn_desc_def Let_def
      power_service_set_conn_handle_def power_service_subscribe_cb_def)

lemma handler_adv_calls_once:
  "adv_calls (snd (deliver env ev s)) = adv_calls s
   \<or> adv_calls (snd (deliver env ev s)) =
       adv_calls s @
         (if adv_set_fields_rc env \<noteq> 0 then [Adv_set_fields (adv_set_fields_rc env)]
          else [Adv_set_fields 0, Adv_start (adv_start_rc env)])"
  by (cases ev) (simp_all add: deliver_def Let_def adv_calls_start adv_calls_other)

text \<open>
  C9. When the host returns an error to \<open>ble_gap_adv_set_fields\<close> or to
  \<open>ble_gap_adv_start\<close>, \<open>start_advertising\<close> writes one error line to the log and returns.
  Every variable and the advertising activity are as before, so the state of the
  peripheral is unchanged, and the failed call is not repeated: the handler of any event
  makes the calls of the request at most once, up to the one that failed, and a tick makes
  none.
\<close>

theorem advertising_request_failure:
  assumes "adv_set_fields_rc env \<noteq> 0 \<or> adv_start_rc env \<noteq> 0"
  shows "start_advertising env s =
           s\<lparr>trace := trace s @
               (if adv_set_fields_rc env \<noteq> 0
                then [Adv_set_fields (adv_set_fields_rc env),
                      Log LogE ''failed to set advertising data, error code: %d'']
                else [Adv_set_fields 0, Adv_start (adv_start_rc env),
                      Log LogE ''failed to start advertising, error code: %d''])\<rparr>
         \<and> peripheral_state_of (start_advertising env s) = peripheral_state_of s
         \<and> (adv_calls (snd (deliver env ev s)) = adv_calls s
              \<or> adv_calls (snd (deliver env ev s)) =
                  adv_calls s @
                    (if adv_set_fields_rc env \<noteq> 0
                     then [Adv_set_fields (adv_set_fields_rc env)]
                     else [Adv_set_fields 0, Adv_start (adv_start_rc env)]))
         \<and> adv_calls (send_power_notification env2 power_watts s) = adv_calls s"
proof -
  have "start_advertising env s =
           s\<lparr>trace := trace s @
               (if adv_set_fields_rc env \<noteq> 0
                then [Adv_set_fields (adv_set_fields_rc env),
                      Log LogE ''failed to set advertising data, error code: %d'']
                else [Adv_set_fields 0, Adv_start (adv_start_rc env),
                      Log LogE ''failed to start advertising, error code: %d''])\<rparr>"
    using assms by (auto simp add: start_advertising_cases)
  moreover have "peripheral_state_of (start_advertising env s) = peripheral_state_of s"
    using assms by (auto simp add: start_advertising_cases peripheral_state_of_def)
  ultimately show ?thesis
    using handler_adv_calls_once [where env = env and ev = ev and s = s]
      tick_no_adv_calls [where env = env2 and p = power_watts and s = s]
    by blast
qed

theorem advertising_request_failure_witness:
  "adv_set_fields_rc host_rejects_start = 0 \<and> adv_start_rc host_rejects_start = 6
   \<and> start_advertising host_rejects_start (boot 42) =
       (boot 42)\<lparr>trace := [Adv_set_fields 0, Adv_start 6,
              Log LogE ''failed to start advertising, error code: %d'']\<rparr>
   \<and> peripheral_state_of (start_advertising host_rejects_start (boot 42)) = Idle"
proof -
  have h: "adv_set_fields_rc host_rejects_start \<noteq> 0 \<or> adv_start_rc host_rejects_start \<noteq> 0"
    by (simp add: host_defs)
  show ?thesis
    using advertising_request_failure [OF h, where s = "boot 42"] h
    by (simp add: host_defs boot_def peripheral_state_of_def)
qed

subsection \<open>Disconnect\<close>

text \<open>
  C1, as the claim states it, fails when the host rejects the advertising request: from
  the connected state with handle 7, a disconnect event during which
  \<open>ble_gap_adv_set_fields\<close> returns 4 leaves the peripheral idle, not advertising.
\<close>

theorem disconnect_with_rejected_request_is_idle:
  "peripheral_state_of (subscribed_to 7) = Connected
   \<and> peripheral_state_of
        (snd (deliver host_rejects_fields (BLE_GAP_EVENT_DISCONNECT 19 7) (subscribed_to 7)))
      = Idle"
  by (simp add: sys_defs host_defs subscribed_to_def boot_def peripheral_state_of_def
      BLE_HS_CONN_HANDLE_NONE_def)

text \<open>
  C1, amended. For every disconnect event, whatever its reason code, the handler returns 0
  and does, in this order and with nothing else between: the log line, the store of the
  none sentinel to the connection handle, the store of false to the notification flag,
  and then the calls of the start-advertising request, of which \<open>ble_gap_adv_set_fields\<close>
  is always made. Its result is \<open>start_advertising\<close> run on the state in which the handle
  and the flag are already cleared. Afterwards the handle is none and the flag false, and
  the peripheral is advertising if the host accepts both calls of the request.
\<close>

theorem disconnect_clears_then_readvertises:
  "let cleared = s\<lparr>power_conn_handle := BLE_HS_CONN_HANDLE_NONE,
                    power_notify_enabled := False,
                    trace := trace s @
                      [disconnect_line, Store_conn_handle BLE_HS_CONN_HANDLE_NONE,
                       Store_notify_enabled False]\<rparr>;
       r = deliver env (BLE_GAP_EVENT_DISCONNECT reason conn_handle) s
   in r = (0, start_advertising env cleared)
      \<and> power_conn_handle (snd r) = BLE_HS_CONN_HANDLE_NONE
      \<and> \<not> power_notify_enabled (snd r)
      \<and> trace (snd r) =
           trace s @
             [disconnect_line, Store_conn_handle BLE_HS_CONN_HANDLE_NONE,
              Store_notify_enabled False] @
             (if adv_set_fields_rc env \<noteq> 0
              then [Adv_set_fields (adv_set_fields_rc env),
                    Log LogE ''failed to set advertising data, error code: %d'']
              else if adv_start_rc env \<noteq> 0
              then [Adv_set_fields 0, Adv_start (adv_start_rc env),
                    Log LogE ''failed to start advertising, error code: %d'']
              else [Adv_set_fields 0, Adv_start 0, Log LogI ''advertising started!''])
      \<and> (adv_set_fields_rc env = 0 \<and> adv_start_rc env = 0 \<longrightarrow>
            peripheral_state_of (snd r) = Advertising)"
  by (simp add: deliver_def power_service_set_conn_handle_def emit_def Let_def
      disconnect_line_def start_advertising_cases peripheral_state_of_def)

theorem disconnect_clears_then_readvertises_witness:
  "adv_set_fields_rc host_accepts = 0 \<and> adv_start_rc host_accepts = 0
   \<and> deliver host_accepts (BLE_GAP_EVENT_DISCONNECT 19 7) (subscribed_to 7) =
       (0, (boot 42)\<lparr>adv_active := True,
              trace := [disconnect_line, Store_conn_handle BLE_HS_CONN_HANDLE_NONE,
                        Store_notify_enabled False, Adv_set_fields 0, Adv_start 0,
                        Log LogI ''advertising started!'']\<rparr>)
   \<and> peripheral_state_of
        (snd (deliver host_accepts (BLE_GAP_EVENT_DISCONNECT 19 7) (subscribed_to 7)))
      = Advertising"
proof -
  have h: "adv_set_fields_rc host_accepts = 0 \<and> adv_start_rc host_accepts = 0"
    by (simp add: host_defs)
  note c = disconnect_clears_then_readvertises
    [of "subscribed_to 7" host_accepts 19 7, unfolded Let_def]
  from c have eq: "deliver host_accepts (BLE_GAP_EVENT_DISCONNECT 19 7) (subscribed_to 7) =
      (0, start_advertising host_accepts
            ((subscribed_to 7)\<lparr>power_conn_handle := BLE_HS_CONN_HANDLE_NONE,
               power_notify_enabled := False,
               trace := trace (subscribed_to 7) @
                 [disconnect_line, Store_conn_handle BLE_HS_CONN_HANDLE_NONE,
                  Store_notify_enabled False]\<rparr>))"
    by blast
  from c h have st: "peripheral_state_of
      (snd (deliver host_accepts (BLE_GAP_EVENT_DISCONNECT 19 7) (subscribed_to 7)))
      = Advertising"
    by blast
  have v: "start_advertising host_accepts
            ((subscribed_to 7)\<lparr>power_conn_handle := BLE_HS_CONN_HANDLE_NONE,
               power_notify_enabled := False,
               trace := trace (subscribed_to 7) @
                 [disconnect_line, Store_conn_handle BLE_HS_CONN_HANDLE_NONE,
                  Store_notify_enabled False]\<rparr>) =
          (boot 42)\<lparr>adv_active := True,
              trace := [disconnect_line, Store_conn_handle BLE_HS_CONN_HANDLE_NONE,
                        Store_notify_enabled False, Adv_set_fields 0, Adv_start 0,
                        Log LogI ''advertising started!'']\<rparr>"
    by (simp add: start_advertising_cases host_defs subscribed_to_def boot_def)
  show ?thesis
    using h eq st v by simp
qed

subsection \<open>Failed connection attempts and completed advertising\<close>

text \<open>
  C3, as the claim states it, fails when the host rejects the advertising request: the
  peripheral is advertising, the host reports a failed connection attempt (status 1), and
  \<open>ble_gap_adv_start\<close> returns 6 to the handler. The handler logs the error and returns;
  the peripheral is idle and nothing in the program asks again.
\<close>

theorem failed_connect_with_rejected_request_is_idle:
  "peripheral_state_of advertising = Advertising
   \<and> peripheral_state_of
        (snd (deliver host_rejects_start (BLE_GAP_EVENT_CONNECT 1 9) advertising)) = Idle"
  by (simp add: sys_defs host_defs advertising_def boot_def peripheral_state_of_def)

text \<open>
  C3, amended. For every connect event with a nonzero status and every advertise-complete
  event, the handler returns 0, its first host call after the log line is
  \<open>ble_gap_adv_set_fields\<close> (the start-advertising request is issued again), and the
  connection handle, the notification flag and the two counters keep their values. If the
  host accepts both calls of the request, the host is advertising afterwards; if in
  addition the peripheral was advertising when the event arrived, it is advertising again
  and the connection handle is still the none sentinel.
\<close>

theorem failed_connect_and_adv_complete_readvertise:
  assumes "ev = BLE_GAP_EVENT_CONNECT status conn_handle \<and> status \<noteq> 0
           \<or> ev = BLE_GAP_EVENT_ADV_COMPLETE reason"
  shows "let r = deliver env ev s
         in fst r = 0
            \<and> (\<exists>line rest. trace (snd r) =
                  trace s @ Log LogI line # Adv_set_fields (adv_set_fields_rc env) # rest)
            \<and> power_conn_handle (snd r) = power_conn_handle s
            \<and> power_notify_enabled (snd r) = power_notify_enabled s
            \<and> cumulative_crank_revs (snd r) = cumulative_crank_revs s
            \<and> last_crank_event_time (snd r) = last_crank_event_time s
            \<and> (adv_set_fields_rc env = 0 \<and> adv_start_rc env = 0 \<longrightarrow> adv_active (snd r))
            \<and> (adv_set_fields_rc env = 0 \<and> adv_start_rc env = 0
                 \<and> peripheral_state_of s = Advertising \<longrightarrow>
                   peripheral_state_of (snd r) = Advertising
                   \<and> power_conn_handle (snd r) = BLE_HS_CONN_HANDLE_NONE)"
  using assms
  by (auto simp add: deliver_def emit_def Let_def start_advertising_cases
      peripheral_state_of_def split: if_splits)

theorem failed_connect_and_adv_complete_readvertise_witness:
  "peripheral_state_of advertising = Advertising
   \<and> snd (deliver host_accepts (BLE_GAP_EVENT_CONNECT 1 9) advertising) =
       advertising\<lparr>trace := [Log LogI ''connection %s; status=%d'', Adv_set_fields 0,
          Adv_start 0, Log LogI ''advertising started!'']\<rparr>
   \<and> peripheral_state_of (snd (deliver host_accepts (BLE_GAP_EVENT_CONNECT 1 9) advertising))
       = Advertising"
proof -
  have p: "peripheral_state_of advertising = Advertising"
    by (simp add: advertising_def boot_def peripheral_state_of_def)
  have h: "adv_set_fields_rc host_accepts = 0 \<and> adv_start_rc host_accepts = 0"
    by (simp add: host_defs)
  have e: "BLE_GAP_EVENT_CONNECT 1 9 = BLE_GAP_EVENT_CONNECT 1 9 \<and> (1::int) \<noteq> 0
      \<or> BLE_GAP_EVENT_CONNECT 1 9 = BLE_GAP_EVENT_ADV_COMPLETE 0"
    by simp
  from failed_connect_and_adv_complete_readvertise
    [OF e, of host_accepts advertising, unfolded Let_def] h p
  have st: "peripheral_state_of
      (snd (deliver host_accepts (BLE_GAP_EVENT_CONNECT 1 9) advertising)) = Advertising"
    by blast
  have v: "snd (deliver host_accepts (BLE_GAP_EVENT_CONNECT 1 9) advertising) =
       advertising\<lparr>trace := [Log LogI ''connection %s; status=%d'', Adv_set_fields 0,
          Adv_start 0, Log LogI ''advertising started!'']\<rparr>"
    by (simp add: deliver_def emit_def start_advertising_cases host_defs advertising_def
        boot_def)
  show ?thesis
    using p st v by simp
qed

subsection \<open>Successful connection\<close>

text \<open>
  C4, as the claim states it, fails in two ways. With handle 7 recorded and the flag set, a
  successful connect event for handle 9 records 9 and leaves the flag set, so ticks pass
  the guard at once. And when \<open>ble_gap_conn_find\<close> returns an error for a successful
  connect event, the handler returns before it records the handle.
\<close>

theorem connect_keeps_notification_flag:
  "power_conn_handle (subscribed_to 7) = 7
   \<and> power_conn_handle
        (snd (deliver host_accepts (BLE_GAP_EVENT_CONNECT 0 9) (subscribed_to 7))) = 9
   \<and> power_notify_enabled
        (snd (deliver host_accepts (BLE_GAP_EVENT_CONNECT 0 9) (subscribed_to 7)))
   \<and> may_notify (snd (deliver host_accepts (BLE_GAP_EVENT_CONNECT 0 9) (subscribed_to 7)))
   \<and> power_conn_handle
        (snd (deliver host_conn_find_fails (BLE_GAP_EVENT_CONNECT 0 9) (boot 42)))
      = BLE_HS_CONN_HANDLE_NONE"
  by (simp add: sys_defs host_defs subscribed_to_def boot_def may_notify_def
      BLE_HS_CONN_HANDLE_NONE_def)

text \<open>
  C4, amended. For every connect event with status 0 for which \<open>ble_gap_conn_find\<close>
  succeeds, the handler returns 0 and records the handle of the event, whatever was
  recorded before. The notification flag keeps its value, except that it becomes false if
  the handle of the event is the none sentinel. So if the flag was false before the
  event, as at process start and after every disconnect, it is false afterwards and ticks
  do not pass the guard; with a real handle the peripheral is connected.
\<close>

theorem connect_records_identity:
  assumes "conn_find_rc env = 0"
  shows "let r = deliver env (BLE_GAP_EVENT_CONNECT 0 conn_handle) s
         in fst r = 0
            \<and> power_conn_handle (snd r) = conn_handle
            \<and> power_notify_enabled (snd r) =
                (power_notify_enabled s \<and> conn_handle \<noteq> BLE_HS_CONN_HANDLE_NONE)
            \<and> (\<not> power_notify_enabled s \<longrightarrow>
                  \<not> power_notify_enabled (snd r) \<and> \<not> may_notify (snd r))
            \<and> (conn_handle \<noteq> BLE_HS_CONN_HANDLE_NONE \<longrightarrow>
                  peripheral_state_of (snd r) = Connected)"
  using assms
  by (simp add: sys_defs may_notify_def peripheral_state_of_def)

theorem connect_records_identity_witness:
  "conn_find_rc host_accepts = 0
   \<and> peripheral_state_of (boot 42) = Idle
   \<and> peripheral_state_of (start_advertising host_accepts (boot 42)) = Advertising
   \<and> (let s' = snd (deliver host_accepts (BLE_GAP_EVENT_CONNECT 0 7)
                  (start_advertising host_accepts (boot 42)))
      in peripheral_state_of s' = Connected \<and> power_conn_handle s' = 7
         \<and> \<not> power_notify_enabled s' \<and> \<not> may_notify s')"
proof -
  have h: "conn_find_rc host_accepts = 0"
    by (simp add: host_defs)
  have n: "\<not> power_notify_enabled (start_advertising host_accepts (boot 42))"
    "(7 :: u16) \<noteq> BLE_HS_CONN_HANDLE_NONE"
    by (simp_all add: start_advertising_cases boot_def BLE_HS_CONN_HANDLE_NONE_def)
  have i: "peripheral_state_of (boot 42) = Idle"
    "peripheral_state_of (start_advertising host_accepts (boot 42)) = Advertising"
    by (simp_all add: start_advertising_cases host_defs boot_def peripheral_state_of_def)
  show ?thesis
    using connect_records_identity [OF h, of 7 "start_advertising host_accepts (boot 42)"]
      h n i
    by (simp add: Let_def)
qed

section \<open>Delivery failures\<close>

text \<open>
  C5, as the claim states it, fails: the counters are advanced before the buffer is
  allocated, and nothing takes the advance back. With handle 7 subscribed and both counters
  0, a tick on which the allocation fails leaves the counters at 1 and 256.
\<close>

theorem failed_delivery_advances_counters:
  "may_notify (subscribed_to 7)
   \<and> cumulative_crank_revs (subscribed_to 7) = 0
   \<and> last_crank_event_time (subscribed_to 7) = 0
   \<and> cumulative_crank_revs (send_power_notification host_no_mbuf 215 (subscribed_to 7)) = 1
   \<and> last_crank_event_time (send_power_notification host_no_mbuf 215 (subscribed_to 7)) = 256"
  by (simp add: send_power_notification_def emit_def Let_def host_defs subscribed_to_def
      boot_def may_notify_def BLE_HS_CONN_HANDLE_NONE_def)

text \<open>
  C5, amended. On a tick that passes the guard and whose delivery fails (the buffer
  allocation fails, or \<open>ble_gatts_notify_custom\<close> returns an error), the counters are
  advanced once, by 1 and by 256, exactly as on a delivered tick; the connection handle,
  the notification flag and the value handle are unchanged; the failure appears only as
  one error line in the log. The next tick passes the guard again and advances the
  counters once more.
\<close>

theorem failed_delivery_is_only_logged:
  assumes "may_notify s" and "\<not> mbuf_alloc_ok env \<or> notify_rc env \<noteq> 0"
  shows "let om = flat_bytes \<lparr>cpm_flags = CPM_FLAG_CRANK_REV_DATA_PRESENT,
                     cpm_instantaneous_power = power_watts,
                     cpm_cumulative_crank_revs = cumulative_crank_revs s + 1,
                     cpm_last_crank_event_time = last_crank_event_time s + 256\<rparr>;
             s' = send_power_notification env power_watts s
         in s' = s\<lparr>cumulative_crank_revs := cumulative_crank_revs s + 1,
                    last_crank_event_time := last_crank_event_time s + 256,
                    trace := trace s @
                      (if \<not> mbuf_alloc_ok env
                       then [Mbuf_from_flat om False,
                             Log LogE ''failed to allocate mbuf for notification'']
                       else [Mbuf_from_flat om True,
                             Notify_custom (power_conn_handle s)
                               (power_measurement_val_handle s) om (notify_rc env),
                             Log LogE ''failed to send notification, error code: %d''])\<rparr>
            \<and> may_notify s'
            \<and> cumulative_crank_revs (send_power_notification env2 power_watts2 s')
                = cumulative_crank_revs s + 2
            \<and> last_crank_event_time (send_power_notification env2 power_watts2 s')
                = last_crank_event_time s + 512"
proof -
  have g: "may_notify (send_power_notification env power_watts s)"
    using assms(1) by (simp add: send_keeps_gate)
  have a: "cumulative_crank_revs (send_power_notification env power_watts s) =
      cumulative_crank_revs s + 1"
    "last_crank_event_time (send_power_notification env power_watts s) =
      last_crank_event_time s + 256"
    using assms(1) by (simp_all add: send_permitted)
  have n: "cumulative_crank_revs (send_power_notification env2 power_watts2
        (send_power_notification env power_watts s)) = cumulative_crank_revs s + 2"
    "last_crank_event_time (send_power_notification env2 power_watts2
        (send_power_notification env power_watts s)) = last_crank_event_time s + 512"
    by (simp_all add: send_permitted [OF g] a)
  show ?thesis
    using assms g n by (auto simp add: Let_def send_permitted [OF assms(1)])
qed

theorem failed_delivery_is_only_logged_witness:
  "may_notify near_wrap
   \<and> mbuf_alloc_ok host_rejects_notify \<and> notify_rc host_rejects_notify = 7
   \<and> cumulative_crank_revs (send_power_notification host_rejects_notify 215 near_wrap) = 0
   \<and> last_crank_event_time (send_power_notification host_rejects_notify 215 near_wrap) = 0
   \<and> trace (send_power_notification host_rejects_notify 215 near_wrap) =
       [Mbuf_from_flat [0x20, 0, 215, 0, 0, 0, 0, 0] True,
        Notify_custom 7 42 [0x20, 0, 215, 0, 0, 0, 0, 0] 7,
        Log LogE ''failed to send notification, error code: %d'']
   \<and> cumulative_crank_revs (send_power_notification host_accepts 216
        (send_power_notification host_rejects_notify 215 near_wrap)) = 1"
proof -
  have g: "may_notify near_wrap"
    by (rule near_wrap_gate)
  have h: "\<not> mbuf_alloc_ok host_rejects_notify \<or> notify_rc host_rejects_notify \<noteq> 0"
    "mbuf_alloc_ok host_rejects_notify" "notify_rc host_rejects_notify = 7"
    by (simp_all add: host_defs)
  have v: "cumulative_crank_revs near_wrap + 1 = 0"
    "last_crank_event_time near_wrap + 256 = 0"
    "cumulative_crank_revs near_wrap + 2 = 1"
    "trace near_wrap = []" "power_conn_handle near_wrap = 7"
    "power_measurement_val_handle near_wrap = 42"
    by (simp_all add: near_wrap_def subscribed_to_def boot_def)
  have b: "flat_bytes \<lparr>cpm_flags = CPM_FLAG_CRANK_REV_DATA_PRESENT,
             cpm_instantaneous_power = 215,
             cpm_cumulative_crank_revs = 0, cpm_last_crank_event_time = 0\<rparr> =
           [0x20, 0, 215, 0, 0, 0, 0, 0]"
    by (simp add: flat_bytes_def le16_def CPM_FLAG_CRANK_REV_DATA_PRESENT_def)
  note c = failed_delivery_is_only_logged
    [OF g h(1), of 215 host_accepts 216, unfolded Let_def v b]
  from c have s: "send_power_notification host_rejects_notify 215 near_wrap =
     near_wrap\<lparr>cumulative_crank_revs := 0, last_crank_event_time := 0,
        trace := [] @
          (if \<not> mbuf_alloc_ok host_rejects_notify
           then [Mbuf_from_flat [0x20, 0, 215, 0, 0, 0, 0, 0] False,
                 Log LogE ''failed to allocate mbuf for notification'']
           else [Mbuf_from_flat [0x20, 0, 215, 0, 0, 0, 0, 0] True,
                 Notify_custom 7 42 [0x20, 0, 215, 0, 0, 0, 0, 0]
                   (notify_rc host_rejects_notify),
                 Log LogE ''failed to send notification, error code: %d''])\<rparr>"
    by blast
  from c have t: "cumulative_crank_revs (send_power_notification host_accepts 216
        (send_power_notification host_rejects_notify 215 near_wrap)) = 1"
    by blast
  show ?thesis
    using g h t by (simp add: s)
qed

end
